theory Spec2Isabelle
  imports Complex_Main
begin

section \<open>Pricing-distribution analysis of \<open>auction_analyzer.py\<close>\<close>

text \<open>
  The theory embeds the numeric core of \<open>PhoenixAuctionAssistant\<close>: the statistical
  analyzer \<open>_analyze_price_distribution\<close> with its nested helpers \<open>get_percentile\<close>,
  \<open>smart_round\<close> and \<open>small_round\<close>, the AI-assisted analyzer
  \<open>_analyze_prices_with_ai\<close> and the bid formula \<open>calculate_bid\<close>.

  Conventions. Python floats are modelled as the reals, with exact arithmetic: no rounding
  error, no overflow, no NaN. Python integers are \<open>int\<close>. A Python exception is a value
  \<open>Inl e\<close> of a sum type. Strings are \<open>string\<close>, case conversion and whitespace
  are those of the ASCII range. Writes to the activity log widget are not modelled.
\<close>

subsection \<open>Python primitives\<close>

datatype py_error =
  IndexError | ValueError | TypeError | AttributeError | KeyError | NameError
  | JSONDecodeError | APIError

text \<open>\<open>bind_err m f\<close> runs \<open>f\<close> on the value of \<open>m\<close> unless \<open>m\<close> raised.\<close>

definition bind_err :: "py_error + 'a \<Rightarrow> ('a \<Rightarrow> py_error + 'b) \<Rightarrow> py_error + 'b" where
  "bind_err m f = (case m of Inl e \<Rightarrow> Inl e | Inr v \<Rightarrow> f v)"

text \<open>\<open>round(x)\<close> on a float: the nearest integer, a tie going to the even neighbour.\<close>

definition py_round :: "real \<Rightarrow> int" where
  "py_round x =
     (let f = \<lfloor>x\<rfloor>; d = x - of_int f
      in if d < 1 / 2 then f
         else if 1 / 2 < d then f + 1
         else if even f then f else f + 1)"

text \<open>\<open>int(x)\<close> on a float truncates towards zero.\<close>

definition py_int :: "real \<Rightarrow> int" where
  "py_int x = (if 0 \<le> x then \<lfloor>x\<rfloor> else \<lceil>x\<rceil>)"

text \<open>\<open>xs[i]\<close> reads position \<open>i\<close>, or position \<open>len(xs) + i\<close> for a negative \<open>i\<close>,
  and raises outside the list.\<close>

definition py_index :: "'a list \<Rightarrow> int \<Rightarrow> py_error + 'a" where
  "py_index xs i =
     (if 0 \<le> i \<and> i < int (length xs) then Inr (xs ! nat i)
      else if i < 0 \<and> - int (length xs) \<le> i then Inr (xs ! nat (int (length xs) + i))
      else Inl IndexError)"

text \<open>\<open>max(xs)\<close> and \<open>min(xs)\<close> raise on an empty list.\<close>

definition py_max :: "real list \<Rightarrow> py_error + real" where
  "py_max xs = (case xs of [] \<Rightarrow> Inl ValueError | x # r \<Rightarrow> Inr (fold max r x))"

definition py_min :: "real list \<Rightarrow> py_error + real" where
  "py_min xs = (case xs of [] \<Rightarrow> Inl ValueError | x # r \<Rightarrow> Inr (fold min r x))"

subsection \<open>Percentiles and rounding\<close>

text \<open>
  \<^verbatim>\<open>
  def get_percentile(data, percentile):
      if len(data) == 1:
          return data[0]
      index = (percentile / 100.0) * (len(data) - 1)
      lower_index = int(index)
      upper_index = min(lower_index + 1, len(data) - 1)
      weight = index - lower_index
      return data[lower_index] * (1 - weight) + data[upper_index] * weight
  \<close>
\<close>

definition get_percentile :: "real list \<Rightarrow> real \<Rightarrow> py_error + real" where
  "get_percentile data percentile =
     (if length data = 1 then py_index data 0
      else
        let index = (percentile / 100) * of_int (int (length data) - 1);
            lower_index = py_int index;
            upper_index = min (lower_index + 1) (int (length data) - 1);
            weight = index - of_int lower_index
        in bind_err (py_index data lower_index) (\<lambda>lo.
           bind_err (py_index data upper_index) (\<lambda>hi.
           Inr (lo * (1 - weight) + hi * weight))))"

text \<open>
  \<^verbatim>\<open>
  def smart_round(price):
      if price < 100:
          return round(price / 5) * 5  # Round to nearest $5
      elif price < 500:
          return round(price / 10) * 10  # Round to nearest $10
      else:
          return round(price / 25) * 25  # Round to nearest $25
  \<close>
\<close>

definition smart_round :: "real \<Rightarrow> int" where
  "smart_round price =
     (if price < 100 then py_round (price / 5) * 5
      else if price < 500 then py_round (price / 10) * 10
      else py_round (price / 25) * 25)"

text \<open>
  \<^verbatim>\<open>
  def small_round(price):
      if price < 50:
          return round(price)  # Round to nearest $1
      elif price < 200:
          return round(price / 5) * 5  # Round to nearest $5
      else:
          return round(price / 10) * 10  # Round to nearest $10
  \<close>
\<close>

definition small_round :: "real \<Rightarrow> int" where
  "small_round price =
     (if price < 50 then py_round price
      else if price < 200 then py_round (price / 5) * 5
      else py_round (price / 10) * 10)"

text \<open>
  The analyzer rounds with \<open>small_round\<close> when fewer than 10 cleaned prices remain
  (\<open>if n < 10:\<close>) and with \<open>smart_round\<close> otherwise.
\<close>

definition tier_round :: "nat \<Rightarrow> real \<Rightarrow> int" where
  "tier_round n price = (if n < 10 then small_round price else smart_round price)"

subsection \<open>Strings\<close>

text \<open>\<open>str.lower()\<close>, \<open>str.startswith\<close>, the substring test \<open>sub in s\<close>,
  \<open>str.strip()\<close> and \<open>str.replace\<close> (for a non-empty pattern).\<close>

definition py_lower_char :: "char \<Rightarrow> char" where
  "py_lower_char c =
     (let k = (of_char c :: nat) in if 65 \<le> k \<and> k \<le> 90 then char_of (k + 32) else c)"

definition py_lower :: "string \<Rightarrow> string" where
  "py_lower s = map py_lower_char s"

fun startswith :: "string \<Rightarrow> string \<Rightarrow> bool" where
  "startswith s [] = True"
| "startswith [] (p # ps) = False"
| "startswith (c # cs) (p # ps) = (c = p \<and> startswith cs ps)"

fun py_contains :: "string \<Rightarrow> string \<Rightarrow> bool" where
  "py_contains [] sub = (sub = [])"
| "py_contains (c # cs) sub = (startswith (c # cs) sub \<or> py_contains cs sub)"

definition py_isspace :: "char \<Rightarrow> bool" where
  "py_isspace c = ((of_char c :: nat) \<in> {9, 10, 11, 12, 13, 28, 29, 30, 31, 32})"

definition py_strip :: "string \<Rightarrow> string" where
  "py_strip s = rev (dropWhile py_isspace (rev (dropWhile py_isspace s)))"

function py_replace :: "string \<Rightarrow> string \<Rightarrow> string \<Rightarrow> string" where
  "py_replace [] old new = []"
| "py_replace (c # cs) old new =
     (if old \<noteq> [] \<and> startswith (c # cs) old
      then new @ py_replace (drop (length old) (c # cs)) old new
      else c # py_replace cs old new)"
  by pat_completeness auto
termination
  by (relation "measure (\<lambda>(s, old, new). length s)") auto

subsection \<open>The statistical analyzer\<close>

text \<open>
  The result dictionary. The keys \<open>raw_p10\<close>, \<open>raw_p30\<close>, \<open>raw_p50\<close>,
  \<open>final_range\<close> and \<open>minimum_price\<close> are present only on the full path; the
  debugging key \<open>removed_details\<close> (formatted text of the first three removals) is
  left out.
\<close>

record diagnostics =
  raw_p10 :: real
  raw_p30 :: real
  raw_p50 :: real
  final_range :: real
  minimum_price :: real

record tier_estimate =
  low :: real
  average :: real
  high :: real
  items_removed :: int
  cleaned_count :: int
  details :: "diagnostics option"

definition suspicious_keywords :: "(string \<times> string list) list" where
  "suspicious_keywords =
     [(''engine'', [''oil filter'', ''housing'', ''gasket'', ''seal'', ''sensor'', ''valve cover'',
                    ''dipstick'', ''bracket'', ''mount'', ''belt'', ''pulley'']),
      (''alternator'', [''brush'', ''pulley'', ''wire'', ''connector'', ''regulator'', ''belt'']),
      (''transmission'', [''fluid'', ''filter'', ''gasket'', ''cooler'', ''mount'', ''line'']),
      (''starter'', [''solenoid'', ''brush'', ''drive'', ''gear'', ''bolt'']),
      (''brake caliper'', [''pad'', ''rotor'', ''disc'', ''fluid'', ''line'', ''hose'']),
      (''fuel pump'', [''filter'', ''line'', ''hose'', ''tank'', ''sending unit'']),
      (''headlight'', [''bulb'', ''ballast'', ''wire'', ''connector'', ''lens'', ''cover''])]"

text \<open>\<open>keywords_to_check = suspicious_keywords.get(part_name.lower(), [])\<close>\<close>

definition keywords_to_check :: "string \<Rightarrow> string list" where
  "keywords_to_check part_name =
     (case map_of suspicious_keywords (py_lower part_name) of None \<Rightarrow> [] | Some kws \<Rightarrow> kws)"

text \<open>\<open>title = raw_titles[i].lower() if raw_titles and i < len(raw_titles) else ""\<close>\<close>

definition title_at :: "string list option \<Rightarrow> nat \<Rightarrow> string" where
  "title_at raw_titles i =
     (case raw_titles of
        None \<Rightarrow> []
      | Some ts \<Rightarrow> if ts \<noteq> [] \<and> i < length ts then py_lower (ts ! i) else [])"

text \<open>\<open>is_suspicious = any(keyword in title for keyword in keywords_to_check)\<close>\<close>

definition is_suspicious :: "string list \<Rightarrow> string \<Rightarrow> bool" where
  "is_suspicious kws title = list_ex (\<lambda>keyword. py_contains title keyword) kws"

text \<open>
  Step 1, the loop \<open>for i, price in enumerate(raw_prices)\<close>: a suspicious title skips
  the price (\<open>continue\<close>), any other price is appended to \<open>cleaned_prices\<close>.
\<close>

fun keyword_loop ::
  "string list \<Rightarrow> string list option \<Rightarrow> nat \<Rightarrow> real list \<Rightarrow> real list \<Rightarrow> real list" where
  "keyword_loop kws raw_titles i [] cleaned_prices = cleaned_prices"
| "keyword_loop kws raw_titles i (p # rest) cleaned_prices =
     (if is_suspicious kws (title_at raw_titles i)
      then keyword_loop kws raw_titles (Suc i) rest cleaned_prices
      else keyword_loop kws raw_titles (Suc i) rest (cleaned_prices @ [p]))"

definition keyword_stage :: "string \<Rightarrow> real list \<Rightarrow> string list option \<Rightarrow> real list" where
  "keyword_stage part_name raw_prices raw_titles =
     keyword_loop (keywords_to_check part_name) raw_titles 0 raw_prices []"

text \<open>Step 2, only \<open>if minimum_price > 0\<close>: keep the prices \<open>price >= minimum_price\<close>.\<close>

fun minimum_loop :: "real \<Rightarrow> real list \<Rightarrow> real list \<Rightarrow> real list" where
  "minimum_loop m [] further_cleaned = further_cleaned"
| "minimum_loop m (p # rest) further_cleaned =
     (if p \<ge> m then minimum_loop m rest (further_cleaned @ [p])
      else minimum_loop m rest further_cleaned)"

definition minimum_stage :: "real \<Rightarrow> real list \<Rightarrow> real list" where
  "minimum_stage m cleaned_prices =
     (if m > 0 then minimum_loop m cleaned_prices [] else cleaned_prices)"

text \<open>Step 3, only \<open>if len(cleaned_prices) >= 10\<close>: the IQR loop skips a price with
  \<open>price < lower_bound or price > upper_bound\<close>.\<close>

fun iqr_loop :: "real \<Rightarrow> real \<Rightarrow> real list \<Rightarrow> real list \<Rightarrow> real list" where
  "iqr_loop lower_bound upper_bound [] iqr_cleaned = iqr_cleaned"
| "iqr_loop lower_bound upper_bound (p # rest) iqr_cleaned =
     (if p < lower_bound \<or> p > upper_bound
      then iqr_loop lower_bound upper_bound rest iqr_cleaned
      else iqr_loop lower_bound upper_bound rest (iqr_cleaned @ [p]))"

definition iqr_stage :: "real list \<Rightarrow> py_error + real list" where
  "iqr_stage cleaned_prices =
     (if 10 \<le> length cleaned_prices then
        let sorted_prices = sort cleaned_prices;
            q1_idx = int (length sorted_prices) div 4;
            q3_idx = 3 * int (length sorted_prices) div 4
        in bind_err (py_index sorted_prices q1_idx) (\<lambda>q1.
           bind_err (py_index sorted_prices q3_idx) (\<lambda>q3.
           let iqr = q3 - q1;
               lower_bound = q1 - 1.5 * iqr;
               upper_bound = q3 + 1.5 * iqr
           in Inr (iqr_loop lower_bound upper_bound cleaned_prices [])))
      else Inr cleaned_prices)"

text \<open>The three filter stages in the order of the source.\<close>

definition clean_prices ::
  "real list \<Rightarrow> string \<Rightarrow> string list option \<Rightarrow> real \<Rightarrow> py_error + real list" where
  "clean_prices raw_prices part_name raw_titles m =
     iqr_stage (minimum_stage m (keyword_stage part_name raw_prices raw_titles))"

text \<open>
  The raw percentiles and the rounded tiers: the 10th, 30th and 50th percentile rounded by
  \<open>smart_round\<close>, replaced, \<open>if n < 10\<close>, by the 5th, 25th and 50th rounded by
  \<open>small_round\<close>.
\<close>

definition price_tiers :: "real list \<Rightarrow> py_error + (real \<times> real \<times> real) \<times> (int \<times> int \<times> int)" where
  "price_tiers sorted_prices =
     (let n = length sorted_prices
      in bind_err (get_percentile sorted_prices 10) (\<lambda>p10.
         bind_err (get_percentile sorted_prices 30) (\<lambda>p30.
         bind_err (get_percentile sorted_prices 50) (\<lambda>p50.
         let budget_tier = smart_round p10;
             standard_tier = smart_round p30;
             premium_tier = smart_round p50
         in if n < 10 then
              bind_err (get_percentile sorted_prices 5) (\<lambda>q10.
              bind_err (get_percentile sorted_prices 25) (\<lambda>q30.
              bind_err (get_percentile sorted_prices 50) (\<lambda>q50.
              Inr ((q10, q30, q50), (small_round q10, small_round q30, small_round q50)))))
            else Inr ((p10, p30, p50), (budget_tier, standard_tier, premium_tier))))))"

text \<open>
  \<^verbatim>\<open>
  if budget_tier == standard_tier == premium_tier and n >= 3:
      price_range = max(sorted_prices) - min(sorted_prices)
      if price_range > 10:
          if price_range < 50: step = 5
          elif price_range < 200: step = 10
          else: step = 25
          budget_tier = max(budget_tier - step, min(sorted_prices))
          premium_tier = premium_tier + step
  \<close>
\<close>

definition separate_tiers :: "real list \<Rightarrow> int \<times> int \<times> int \<Rightarrow> py_error + real \<times> real \<times> real" where
  "separate_tiers sorted_prices tiers =
     (case tiers of (budget_tier, standard_tier, premium_tier) \<Rightarrow>
        if budget_tier = standard_tier \<and> standard_tier = premium_tier \<and> 3 \<le> length sorted_prices
        then
          bind_err (py_max sorted_prices) (\<lambda>mx.
          bind_err (py_min sorted_prices) (\<lambda>mn.
          let price_range = mx - mn
          in if price_range > 10 then
               let step = (if price_range < 50 then 5 else if price_range < 200 then 10 else 25)
               in Inr (max (of_int budget_tier - step) mn, of_int standard_tier,
                       of_int premium_tier + step)
             else Inr (of_int budget_tier, of_int standard_tier, of_int premium_tier)))
        else Inr (of_int budget_tier, of_int standard_tier, of_int premium_tier))"

text \<open>The part of \<open>_analyze_price_distribution\<close> that runs for three or more listings.\<close>

definition full_pipeline ::
  "real list \<Rightarrow> string \<Rightarrow> string list option \<Rightarrow> real \<Rightarrow> py_error + tier_estimate" where
  "full_pipeline raw_prices part_name raw_titles m =
     (let original_count = int (length raw_prices)
      in bind_err (clean_prices raw_prices part_name raw_titles m) (\<lambda>cleaned_prices.
         if cleaned_prices = [] then
           Inr \<lparr>low = 0, average = 0, high = 0, items_removed = original_count,
                cleaned_count = 0, details = None\<rparr>
         else
           let sorted_prices = sort cleaned_prices
           in bind_err (price_tiers sorted_prices) (\<lambda>(raw, rounded).
              bind_err (separate_tiers sorted_prices rounded) (\<lambda>(budget_tier, standard_tier, premium_tier).
              bind_err (py_max cleaned_prices) (\<lambda>mx.
              bind_err (py_min cleaned_prices) (\<lambda>mn.
              Inr \<lparr>low = budget_tier, average = standard_tier, high = premium_tier,
                   items_removed = original_count - int (length cleaned_prices),
                   cleaned_count = int (length cleaned_prices),
                   details = Some \<lparr>raw_p10 = fst raw, raw_p30 = fst (snd raw),
                                    raw_p50 = snd (snd raw), final_range = mx - mn,
                                    minimum_price = m\<rparr>\<rparr>))))))"

definition analyze_price_distribution ::
  "real list \<Rightarrow> string \<Rightarrow> string list option \<Rightarrow> real \<Rightarrow> py_error + tier_estimate" where
  "analyze_price_distribution raw_prices part_name raw_titles m =
     (if raw_prices = [] then
        Inr \<lparr>low = 0, average = 0, high = 0, items_removed = 0, cleaned_count = 0,
             details = None\<rparr>
      else if length raw_prices < 3 then
        let avg = sum_list raw_prices / real (length raw_prices)
        in Inr \<lparr>low = avg, average = avg, high = avg, items_removed = 0,
                cleaned_count = int (length raw_prices), details = None\<rparr>
      else full_pipeline raw_prices part_name raw_titles m)"

subsection \<open>The bid formula\<close>

text \<open>
  \<^verbatim>\<open>
  def calculate_bid(parts_value):
      if parts_value <= 0:
          return 0
      elif parts_value <= 3000:
          return 300
      else:
          excess = parts_value - 3000
          percentage = 0.25 + 0.40 * math.sqrt((parts_value - 3000) / 15000)
          return 300 + excess * percentage
  \<close>
\<close>

definition calculate_bid :: "real \<Rightarrow> real" where
  "calculate_bid parts_value =
     (if parts_value \<le> 0 then 0
      else if parts_value \<le> 3000 then 300
      else
        let excess = parts_value - 3000;
            percentage = 0.25 + 0.40 * sqrt ((parts_value - 3000) / 15000)
        in 300 + excess * percentage)"

subsection \<open>The AI-assisted analyzer\<close>




text \<open>The values \<open>json.loads\<close> returns.\<close>

datatype json =
  JNull | JBool bool | JInt int | JFloat real | JString string
  | JArray "json list" | JObject "(string \<times> json) list"

text \<open>\<open>key in result\<close>: a key of a dict, an element of a list, a substring of a string;
  a TypeError on a number, a boolean or \<open>None\<close>.\<close>

fun py_in :: "string \<Rightarrow> json \<Rightarrow> py_error + bool" where
  "py_in key (JObject kvs) = Inr (key \<in> set (map fst kvs))"
| "py_in key (JArray xs) = Inr (JString key \<in> set xs)"
| "py_in key (JString s) = Inr (py_contains s key)"
| "py_in key JNull = Inl TypeError"
| "py_in key (JBool b) = Inl TypeError"
| "py_in key (JInt i) = Inl TypeError"
| "py_in key (JFloat r) = Inl TypeError"

text \<open>\<open>all(key in result for key in required_keys)\<close> stops at the first missing key.\<close>

fun all_keys_in :: "string list \<Rightarrow> json \<Rightarrow> py_error + bool" where
  "all_keys_in [] result = Inr True"
| "all_keys_in (key # keys) result =
     bind_err (py_in key result) (\<lambda>present. if present then all_keys_in keys result else Inr False)"

text \<open>\<open>result.get(key, dflt)\<close> and \<open>result[key]\<close>; only a dict has \<open>get\<close>, and a
  list or a string does not take a string as index.\<close>

fun py_get :: "json \<Rightarrow> string \<Rightarrow> json \<Rightarrow> py_error + json" where
  "py_get (JObject kvs) key dflt =
     Inr (case map_of kvs key of Some v \<Rightarrow> v | None \<Rightarrow> dflt)"
| "py_get other key dflt = Inl AttributeError"

fun py_getitem :: "json \<Rightarrow> string \<Rightarrow> py_error + json" where
  "py_getitem (JObject kvs) key =
     (case map_of kvs key of Some v \<Rightarrow> Inr v | None \<Rightarrow> Inl KeyError)"
| "py_getitem other key = Inl TypeError"

text \<open>\<open>v.lower()\<close> exists on a string only.\<close>

fun py_str_lower :: "json \<Rightarrow> py_error + string" where
  "py_str_lower (JString s) = Inr (py_lower s)"
| "py_str_lower other = Inl AttributeError"

text \<open>\<open>float(v)\<close>; the parser of numeric text is the parameter \<open>str_to_float\<close>.\<close>

fun py_float :: "(string \<Rightarrow> real option) \<Rightarrow> json \<Rightarrow> py_error + real" where
  "py_float str_to_float (JInt i) = Inr (of_int i)"
| "py_float str_to_float (JFloat r) = Inr r"
| "py_float str_to_float (JBool b) = Inr (if b then 1 else 0)"
| "py_float str_to_float (JString s) =
     (case str_to_float s of Some r \<Rightarrow> Inr r | None \<Rightarrow> Inl ValueError)"
| "py_float str_to_float other = Inl TypeError"

text \<open>\<open>a - b\<close> on numbers (a boolean counts as 0 or 1); a TypeError otherwise.\<close>

fun py_as_int :: "json \<Rightarrow> int option" where
  "py_as_int (JInt i) = Some i"
| "py_as_int (JBool b) = Some (if b then 1 else 0)"
| "py_as_int other = None"

fun py_as_number :: "json \<Rightarrow> real option" where
  "py_as_number (JInt i) = Some (of_int i)"
| "py_as_number (JBool b) = Some (if b then 1 else 0)"
| "py_as_number (JFloat r) = Some r"
| "py_as_number other = None"

definition py_sub :: "json \<Rightarrow> json \<Rightarrow> py_error + json" where
  "py_sub a b =
     (case (py_as_int a, py_as_int b) of
        (Some i, Some j) \<Rightarrow> Inr (JInt (i - j))
      | _ \<Rightarrow> (case (py_as_number a, py_as_number b) of
                (Some x, Some y) \<Rightarrow> Inr (JFloat (x - y))
              | _ \<Rightarrow> Inl TypeError))"

text \<open>The dictionary returned on the AI path.\<close>

record ai_estimate =
  ai_low :: real
  ai_average :: real
  ai_high :: real
  items_analyzed :: json
  items_filtered_out :: json
  reasoning :: json
  confidence_rating :: string
  confidence_explanation :: json
  ai_cleaned_count :: json
  ai_items_removed :: json




text \<open>
  \<^verbatim>\<open>
  response_text = response.text.strip()
  if response_text.startswith('```json'):
      response_text = response_text.replace('```json', '').replace('```', '').strip()
  elif response_text.startswith('```'):
      response_text = response_text.replace('```', '').strip()
  \<close>
\<close>

definition strip_code_fences :: "string \<Rightarrow> string" where
  "strip_code_fences text =
     (let response_text = py_strip text
      in if startswith response_text ''```json''
         then py_strip (py_replace (py_replace response_text ''```json'' []) ''```'' [])
         else if startswith response_text ''```''
         then py_strip (py_replace response_text ''```'' [])
         else response_text)"

definition required_keys :: "string list" where
  "required_keys =
     [''low_price'', ''average_price'', ''high_price'', ''items_analyzed'',
      ''items_filtered_out'', ''reasoning'', ''confidence_rating'', ''confidence_explanation'']"

definition valid_confidence_levels :: "string list" where
  "valid_confidence_levels = [''dark_green'', ''light_green'', ''yellow'', ''orange'', ''red'']"

text \<open>
  From \<open>result = json.loads(response_text)\<close> to the returned dictionary; \<open>json.loads\<close>
  is the parameter \<open>json_loads\<close>, \<open>None\<close> where it raises.
\<close>

definition parse_ai_response ::
  "(string \<Rightarrow> json option) \<Rightarrow> (string \<Rightarrow> real option) \<Rightarrow> string \<Rightarrow> py_error + ai_estimate" where
  "parse_ai_response json_loads str_to_float text =
     (case json_loads (strip_code_fences text) of
        None \<Rightarrow> Inl JSONDecodeError
      | Some result \<Rightarrow>
          bind_err (all_keys_in required_keys result) (\<lambda>complete.
          if \<not> complete then Inl ValueError
          else
            bind_err (py_get result ''confidence_rating'' (JString [])) (\<lambda>rating.
            bind_err (py_str_lower rating) (\<lambda>lowered.
            let rating' = (if lowered \<in> set valid_confidence_levels then lowered else ''yellow'')
            in bind_err (py_getitem result ''items_analyzed'') (\<lambda>analyzed.
               bind_err (py_getitem result ''items_filtered_out'') (\<lambda>filtered.
               bind_err (py_getitem result ''confidence_explanation'') (\<lambda>explanation.
               bind_err (py_getitem result ''reasoning'') (\<lambda>reason.
               bind_err (py_getitem result ''low_price'') (\<lambda>lo.
               bind_err (py_float str_to_float lo) (\<lambda>lo'.
               bind_err (py_getitem result ''average_price'') (\<lambda>av.
               bind_err (py_float str_to_float av) (\<lambda>av'.
               bind_err (py_getitem result ''high_price'') (\<lambda>hi.
               bind_err (py_float str_to_float hi) (\<lambda>hi'.
               bind_err (py_sub analyzed filtered) (\<lambda>cleaned.
               Inr \<lparr>ai_low = lo', ai_average = av', ai_high = hi',
                    items_analyzed = analyzed, items_filtered_out = filtered,
                    reasoning = reason, confidence_rating = rating',
                    confidence_explanation = explanation,
                    ai_cleaned_count = cleaned, ai_items_removed = filtered\<rparr>)))))))))))))))"




subsection \<open>Notions of the specification\<close>

text \<open>
  ``Rounded to the nearest \<open>$k\<close>'': a multiple of \<open>k\<close> at distance at most \<open>k / 2\<close>.
\<close>

definition nearest_multiple :: "int \<Rightarrow> real \<Rightarrow> int \<Rightarrow> bool" where
  "nearest_multiple k v r = (k dvd r \<and> \<bar>of_int r - v\<bar> \<le> of_int k / 2)"

text \<open>
  The percentile of the specification: the fractional index \<open>idx = (p/100)*(n-1)\<close> and
  the linear interpolation between the values at \<open>floor(idx)\<close> and \<open>ceil(idx)\<close>.
\<close>

definition spec_index :: "real list \<Rightarrow> real \<Rightarrow> real" where
  "spec_index sortedValues p = (p / 100) * (real (length sortedValues) - 1)"

definition spec_interpolate :: "real list \<Rightarrow> real \<Rightarrow> real" where
  "spec_interpolate sortedValues idx =
     (let lo = sortedValues ! nat \<lfloor>idx\<rfloor>; hi = sortedValues ! nat \<lceil>idx\<rceil>
      in lo + (hi - lo) * (idx - of_int \<lfloor>idx\<rfloor>))"

text \<open>The branch of \<open>calculate_bid\<close> for positive totals, as one expression.\<close>

definition bid_premium :: "real \<Rightarrow> real" where
  "bid_premium v =
     300 + max (v - 3000) 0 * (0.25 + 0.40 * sqrt (max (v - 3000) 0 / 15000))"

text \<open>The arithmetic mean.\<close>

definition spec_mean :: "real list \<Rightarrow> real" where
  "spec_mean prices = sum_list prices / real (length prices)"



section \<open>Properties\<close>

subsection \<open>Rounding\<close>

lemma py_round_ge_floor: "\<lfloor>x\<rfloor> \<le> py_round x"
  by (simp add: py_round_def Let_def)

lemma py_round_le_floor: "py_round x \<le> \<lfloor>x\<rfloor> + 1"
  by (simp add: py_round_def Let_def)

lemma py_round_of_int: "py_round (of_int k) = k"
  by (simp add: py_round_def Let_def)

lemma py_round_mono: "x \<le> y \<Longrightarrow> py_round x \<le> py_round y"
proof -
  assume xy: "x \<le> y"
  then have fl: "\<lfloor>x\<rfloor> \<le> \<lfloor>y\<rfloor>" by (rule floor_mono)
  show ?thesis
  proof (cases "\<lfloor>x\<rfloor> = \<lfloor>y\<rfloor>")
    case True
    with xy show ?thesis by (simp add: py_round_def Let_def)
  next
    case False
    with fl have "\<lfloor>x\<rfloor> + 1 \<le> \<lfloor>y\<rfloor>" by simp
    with py_round_le_floor [of x] py_round_ge_floor [of y] show ?thesis by linarith
  qed
qed

lemma py_round_near: "\<bar>of_int (py_round x) - x\<bar> \<le> 1 / 2"
proof -
  have "of_int \<lfloor>x\<rfloor> \<le> x" "x < of_int \<lfloor>x\<rfloor> + 1" by linarith+
  then show ?thesis by (auto simp add: py_round_def Let_def)
qed

lemma py_round_le_int: "x \<le> of_int m \<Longrightarrow> py_round x \<le> m"
  using py_round_mono [of x "of_int m"] by (simp add: py_round_of_int)

lemma py_round_ge_int: "of_int m \<le> x \<Longrightarrow> m \<le> py_round x"
  using py_round_mono [of "of_int m" x] by (simp add: py_round_of_int)

lemma smart_round_mono: "x \<le> y \<Longrightarrow> smart_round x \<le> smart_round y"
proof -
  assume xy: "x \<le> y"
  have a: "py_round (x / 5) \<le> py_round (y / 5)" "py_round (x / 10) \<le> py_round (y / 10)"
    "py_round (x / 25) \<le> py_round (y / 25)"
    using xy by (simp_all add: py_round_mono divide_right_mono)
  have b1: "x < 100 \<Longrightarrow> py_round (x / 5) \<le> 20" using py_round_le_int [of "x / 5" 20] by simp
  have b2: "100 \<le> y \<Longrightarrow> 10 \<le> py_round (y / 10)" using py_round_ge_int [of 10 "y / 10"] by simp
  have b3: "x < 500 \<Longrightarrow> py_round (x / 10) \<le> 50" using py_round_le_int [of "x / 10" 50] by simp
  have b4: "500 \<le> y \<Longrightarrow> 20 \<le> py_round (y / 25)" using py_round_ge_int [of 20 "y / 25"] by simp
  show ?thesis
    unfolding smart_round_def using xy a b1 b2 b3 b4 by auto
qed

lemma small_round_mono: "x \<le> y \<Longrightarrow> small_round x \<le> small_round y"
proof -
  assume xy: "x \<le> y"
  have a: "py_round x \<le> py_round y" "py_round (x / 5) \<le> py_round (y / 5)" "py_round (x / 10) \<le> py_round (y / 10)"
    using xy by (simp_all add: py_round_mono divide_right_mono)
  have b1: "x < 50 \<Longrightarrow> py_round x \<le> 50" using py_round_le_int [of "x" 50] by simp
  have b2: "50 \<le> y \<Longrightarrow> 10 \<le> py_round (y / 5)" using py_round_ge_int [of 10 "y / 5"] by simp
  have b3: "x < 200 \<Longrightarrow> py_round (x / 5) \<le> 40" using py_round_le_int [of "x / 5" 40] by simp
  have b4: "200 \<le> y \<Longrightarrow> 20 \<le> py_round (y / 10)" using py_round_ge_int [of 20 "y / 10"] by simp
  show ?thesis
    unfolding small_round_def using xy a b1 b2 b3 b4 by auto
qed

lemma round_to_nearest: "0 < k \<Longrightarrow> nearest_multiple k v (py_round (v / of_int k) * k)"
proof -
  assume k: "0 < k"
  define a where "a = real_of_int (py_round (v / of_int k))"
  have "\<bar>a - v / of_int k\<bar> \<le> 1 / 2" unfolding a_def by (rule py_round_near)
  then have "\<bar>a - v / of_int k\<bar> * of_int k \<le> 1 / 2 * of_int k"
    using k by (intro mult_right_mono) simp_all
  moreover have "\<bar>a - v / of_int k\<bar> * of_int k = \<bar>(a - v / of_int k) * of_int k\<bar>"
    using k by (simp add: abs_mult)
  moreover have "(a - v / of_int k) * of_int k = a * of_int k - v"
    using k by (simp add: field_simps)
  ultimately show ?thesis by (simp add: nearest_multiple_def a_def)
qed

subsection \<open>Percentiles\<close>

lemma py_index_nat: "0 \<le> i \<Longrightarrow> i < int (length xs) \<Longrightarrow> py_index xs i = Inr (xs ! nat i)"
  by (simp add: py_index_def)

lemma spec_index_range:
  assumes "data \<noteq> []" "0 \<le> p" "p \<le> 100"
  shows "0 \<le> spec_index data p" "spec_index data p \<le> real (length data) - 1"
proof -
  have n: "0 \<le> real (length data) - 1" using assms(1) by (cases data) simp_all
  show "0 \<le> spec_index data p" unfolding spec_index_def using n assms(2) by simp
  have "p / 100 \<le> 1" using assms(3) by simp
  then have "p / 100 * (real (length data) - 1) \<le> 1 * (real (length data) - 1)"
    using n by (rule mult_right_mono)
  then show "spec_index data p \<le> real (length data) - 1" by (simp add: spec_index_def)
qed

lemma ceiling_non_int: "x \<noteq> of_int \<lfloor>x\<rfloor> \<Longrightarrow> \<lceil>x\<rceil> = \<lfloor>x\<rfloor> + 1"
  by (metis ceiling_altdef)

lemma floor_less_non_int: "x \<noteq> of_int \<lfloor>x\<rfloor> \<Longrightarrow> of_int \<lfloor>x\<rfloor> < (x::real)"
  by (metis of_int_floor_le order_le_less)

lemma ceiling_le_floor1: "\<lceil>x\<rceil> \<le> \<lfloor>x\<rfloor> + 1"
  by (metis ceiling_altdef order_refl zle_add1_eq_le zless_add1_eq)

lemma floor_le_length: "idx \<le> real n - 1 \<Longrightarrow> \<lfloor>idx\<rfloor> \<le> int n - 1"
proof -
  assume "idx \<le> real n - 1"
  then have "idx \<le> real_of_int (int n - 1)" by simp
  then have "\<lfloor>idx\<rfloor> \<le> \<lfloor>real_of_int (int n - 1)\<rfloor>" by (rule floor_mono)
  then show ?thesis by (simp only: floor_of_int)
qed


lemma get_percentile_index:
  assumes "data \<noteq> []" "0 \<le> idx" "idx \<le> real (length data) - 1" "length data \<noteq> 1"
    "idx = (p / 100) * of_int (int (length data) - 1)"
  shows "get_percentile data p = Inr (spec_interpolate data idx)"
proof -
  let ?n = "int (length data)"
  let ?l = "\<lfloor>idx\<rfloor>"
  let ?u = "min (?l + 1) (?n - 1)"
  let ?w = "idx - of_int ?l"
  have l0: "0 \<le> ?l" using assms(2) by simp
  have ln: "?l \<le> ?n - 1" using assms(3) by (rule floor_le_length)
  then have ln2: "?l < ?n" by simp
  have u0: "0 \<le> ?u" using l0 ln by linarith
  have un: "?u < ?n" by simp
  have pi: "py_int idx = ?l" using assms(2) by (simp add: py_int_def)
  have "get_percentile data p =
      bind_err (py_index data ?l) (\<lambda>lo. bind_err (py_index data ?u) (\<lambda>hi.
        Inr (lo * (1 - ?w) + hi * ?w)))"
    unfolding get_percentile_def assms(5) [symmetric] pi Let_def using assms(4) by simp
  then have gp: "get_percentile data p = Inr (data ! nat ?l * (1 - ?w) + data ! nat ?u * ?w)"
    by (simp add: py_index_nat [OF l0 ln2] py_index_nat [OF u0 un] bind_err_def)
  show ?thesis
  proof (cases "idx = of_int ?l")
    case True
    then have w: "?w = 0" by simp
    have c: "\<lceil>idx\<rceil> = ?l" using True by (metis ceiling_of_int)
    show ?thesis unfolding gp spec_interpolate_def Let_def c w by simp
  next
    case False
    then have lt: "of_int ?l < idx" by (rule floor_less_non_int)
    have c: "\<lceil>idx\<rceil> = ?l + 1" using False by (rule ceiling_non_int)
    have "real_of_int ?l < real_of_int (?n - 1)" using lt assms(3) by simp
    then have "?l + 1 \<le> ?n - 1" by linarith
    then have u: "?u = ?l + 1" by simp
    show ?thesis unfolding gp spec_interpolate_def Let_def c u by (simp add: algebra_simps)
  qed
qed

lemma get_percentile_value:
  assumes "data \<noteq> []" "0 \<le> p" "p \<le> 100"
  shows "get_percentile data p = Inr (spec_interpolate data (spec_index data p))"
proof (cases "length data = 1")
  case True
  then have "spec_index data p = 0" by (simp add: spec_index_def)
  then show ?thesis using True
    by (simp add: get_percentile_def py_index_def spec_interpolate_def)
next
  case False
  have "spec_index data p = (p / 100) * of_int (int (length data) - 1)"
    by (simp add: spec_index_def)
  with spec_index_range [OF assms] assms(1) False show ?thesis
    by (intro get_percentile_index) simp_all
qed



subsection \<open>The bid formula\<close>

lemma calculate_bid_premium: "0 < v \<Longrightarrow> calculate_bid v = bid_premium v"
  by (simp add: calculate_bid_def bid_premium_def Let_def max_def)

lemma bid_premium_cont: "isCont bid_premium v"
  unfolding bid_premium_def by (intro continuous_intros) simp

lemma bid_premium_mono: "x \<le> y \<Longrightarrow> bid_premium x \<le> bid_premium y"
proof -
  assume xy: "x \<le> y"
  let ?a = "max (x - 3000) 0" and ?b = "max (y - 3000) 0"
  have ab: "?a \<le> ?b" "0 \<le> ?a" using xy by simp_all
  then have "sqrt (?a / 15000) \<le> sqrt (?b / 15000)" by (simp add: divide_right_mono)
  then have p: "0.25 + 0.40 * sqrt (?a / 15000) \<le> 0.25 + 0.40 * sqrt (?b / 15000)" by simp
  have "0 \<le> sqrt (?a / 15000)" using ab(2) by simp
  then have p0: "0 \<le> 0.25 + 0.40 * sqrt (?a / 15000)" by simp
  have "?a * (0.25 + 0.40 * sqrt (?a / 15000)) \<le> ?b * (0.25 + 0.40 * sqrt (?b / 15000))"
    using ab(1) p ab(2) p0 by (intro mult_mono) simp_all
  then show ?thesis by (simp add: bid_premium_def)
qed

lemma bid_premium_ge: "300 \<le> bid_premium v"
proof -
  have "0 \<le> sqrt (max (v - 3000) 0 / 15000)" by simp
  then have "0 \<le> max (v - 3000) 0 * (0.25 + 0.40 * sqrt (max (v - 3000) 0 / 15000))"
    by (intro mult_nonneg_nonneg) simp_all
  then show ?thesis by (simp add: bid_premium_def)
qed

lemma calculate_bid_mono: "x \<le> y \<Longrightarrow> calculate_bid x \<le> calculate_bid y"
proof (cases "0 < x")
  case True
  assume "x \<le> y"
  with True bid_premium_mono [of x y] show ?thesis by (simp add: calculate_bid_premium)
next
  case False
  then have x: "calculate_bid x = 0" by (simp add: calculate_bid_def)
  have "0 \<le> calculate_bid y"
  proof (cases "0 < y")
    case True
    with bid_premium_ge [of y] show ?thesis by (simp add: calculate_bid_premium)
  next
    case False
    then show ?thesis by (simp add: calculate_bid_def)
  qed
  with x show ?thesis by simp
qed

lemma calculate_bid_cont_pos: "0 < v \<Longrightarrow> isCont calculate_bid v"
proof -
  assume v: "0 < v"
  have "\<forall>\<^sub>F x in nhds v. calculate_bid x = bid_premium x"
    unfolding eventually_nhds
    by (rule exI [of _ "{0<..}"]) (use v in \<open>simp add: calculate_bid_premium\<close>)
  then have "isCont calculate_bid v = isCont bid_premium v" by (rule isCont_cong)
  then show ?thesis by (simp add: bid_premium_cont)
qed

lemma calculate_bid_cont_neg: "v < 0 \<Longrightarrow> isCont calculate_bid v"
proof -
  assume v: "v < 0"
  have "\<forall>\<^sub>F x in nhds v. calculate_bid x = (\<lambda>x. 0) x"
    unfolding eventually_nhds
    by (rule exI [of _ "{..<0}"]) (use v in \<open>simp add: calculate_bid_def\<close>)
  then have "isCont calculate_bid v = isCont (\<lambda>x. 0::real) v" by (rule isCont_cong)
  then show ?thesis by simp
qed

subsection \<open>The filter stages\<close>









subsection \<open>The keyword stage\<close>








subsection \<open>The tiers\<close>










subsection \<open>The AI-assisted analyzer\<close>



lemma all_keys_in_object:
  "all_keys_in keys (JObject kvs) = Inr (\<forall>key \<in> set keys. key \<in> fst ` set kvs)"
  by (induction keys) (simp_all add: bind_err_def)





lemma parse_rating_not_string:
  assumes "json_loads (strip_code_fences text) = Some (JObject kvs)"
    and "\<forall>key \<in> set required_keys. key \<in> fst ` set kvs"
    and "map_of kvs ''confidence_rating'' = Some rating"
    and "\<forall>s. rating \<noteq> JString s"
  shows "parse_ai_response json_loads str_to_float text = Inl AttributeError"
proof -
  have keys: "all_keys_in required_keys (JObject kvs) = Inr True"
    using assms(2) by (simp add: all_keys_in_object)
  have "py_str_lower rating = Inl AttributeError" using assms(4) by (cases rating) simp_all
  then show ?thesis
    unfolding parse_ai_response_def assms(1) option.case keys bind_err_def
    by (simp add: assms(3))
qed



section \<open>The claims\<close>

subsection \<open>The bid formula\<close>

text \<open>
  Claim C3. For every parts value \<open>v\<close>: the bid is 0 when \<open>v \<le> 0\<close>, 300 when
  \<open>0 < v \<le> 3000\<close>, and \<open>300 + (v - 3000) * (0.25 + 0.40 * sqrt ((v - 3000) / 15000))\<close>
  when \<open>v > 3000\<close>; in particular the bid of 0 is 0, of 3000 is 300 and of 18000 is 10050.
\<close>

theorem calculate_bid_cases:
  "(v \<le> 0 \<longrightarrow> calculate_bid v = 0)
   \<and> (0 < v \<and> v \<le> 3000 \<longrightarrow> calculate_bid v = 300)
   \<and> (3000 < v \<longrightarrow>
        calculate_bid v = 300 + (v - 3000) * (0.25 + 0.40 * sqrt ((v - 3000) / 15000)))
   \<and> calculate_bid 0 = 0 \<and> calculate_bid 3000 = 300 \<and> calculate_bid 18000 = 10050"
  by (simp add: calculate_bid_def Let_def)

theorem calculate_bid_cases_witness:
  "calculate_bid (- 20) = 0 \<and> calculate_bid 1500 = 300
   \<and> calculate_bid 63000 = 300 + 60000 * (0.25 + 0.40 * 2)
   \<and> calculate_bid 18000 = 10050"
  using calculate_bid_cases [of "- 20"] calculate_bid_cases [of 1500]
    calculate_bid_cases [of 63000]
  by simp

text \<open>
  Claim C4, as stated: the bid is monotonically increasing and continuous at every point,
  the boundaries 0 and 3000 included. It is refuted at 0: the bid of 0 is 0, the bids of
  the values just above 0 are 300, so the bid is not continuous there.
\<close>

theorem calculate_bid_jump_at_zero:
  "calculate_bid 0 = 0 \<and> (calculate_bid \<longlongrightarrow> 300) (at_right 0) \<and> \<not> isCont calculate_bid 0"
proof (intro conjI)
  show zero: "calculate_bid 0 = 0" by (simp add: calculate_bid_def)
  have "\<forall>\<^sub>F x in at_right 0. calculate_bid x = 300"
    unfolding eventually_at_right_field
    by (rule exI [of _ 3000]) (simp add: calculate_bid_def)
  then show "(calculate_bid \<longlongrightarrow> 300) (at_right 0)" by (simp add: tendsto_eventually)
  show "\<not> isCont calculate_bid 0"
  proof
    assume "isCont calculate_bid 0"
    then have "calculate_bid \<midarrow>0\<rightarrow> calculate_bid 0" by (simp add: isCont_def)
    then have "\<exists>s>0. \<forall>x. x \<noteq> 0 \<and> dist x 0 < s \<longrightarrow> dist (calculate_bid x) (calculate_bid 0) < 300"
      unfolding LIM_def by (elim allE [of _ 300]) simp
    then obtain s where s: "0 < s"
      and lim: "\<And>x. x \<noteq> 0 \<Longrightarrow> dist x 0 < s \<Longrightarrow> dist (calculate_bid x) (calculate_bid 0) < 300"
      by blast
    define x where "x = min (s / 2) 1"
    have x: "0 < x" "x < s" "x \<le> 3000" using s by (simp_all add: x_def min_def)
    then have "calculate_bid x = 300" by (simp add: calculate_bid_def)
    moreover have "dist (calculate_bid x) (calculate_bid 0) < 300" using x by (intro lim) simp_all
    ultimately show False using zero by simp
  qed
qed

text \<open>
  Claim C4, amended: the bid is monotonically increasing over its whole domain, and it is
  continuous at every parts value other than 0 (so also at the boundary 3000).
\<close>

theorem calculate_bid_monotone_continuous:
  "(x \<le> y \<longrightarrow> calculate_bid x \<le> calculate_bid y) \<and> (v \<noteq> 0 \<longrightarrow> isCont calculate_bid v)"
proof -
  have "isCont calculate_bid v" if "v \<noteq> 0"
  proof (cases "0 < v")
    case True
    then show ?thesis by (rule calculate_bid_cont_pos)
  next
    case False
    with that have "v < 0" by simp
    then show ?thesis by (rule calculate_bid_cont_neg)
  qed
  then show ?thesis by (simp add: calculate_bid_mono)
qed

theorem calculate_bid_monotone_continuous_witness:
  "(2000::real) \<le> 18000 \<and> calculate_bid 2000 \<le> calculate_bid 18000
   \<and> (3000::real) \<noteq> 0 \<and> isCont calculate_bid 3000"
  using calculate_bid_monotone_continuous [of 2000 18000 3000] by simp

subsection \<open>Rounding\<close>

text \<open>
  Claim C6, as stated, has the analyzer round a value of at least 200 to the nearest
  \<open>$25\<close> when fewer than 10 prices remain. It is refuted at the value 210 with 5
  prices: the result, 210, is not a multiple of 25.
\<close>

theorem tier_round_small_not_25:
  "(5::nat) < 10 \<and> (200::real) \<le> 210 \<and> tier_round 5 210 = 210
   \<and> \<not> nearest_multiple 25 210 (tier_round 5 210)"
  by (simp add: nearest_multiple_def tier_round_def small_round_def py_round_def)

text \<open>
  Claim C6, amended. With \<open>n\<close> cleaned prices, a value \<open>v\<close> is rounded, for
  \<open>n \<ge> 10\<close>, to the nearest \<open>$5\<close> if \<open>v < 100\<close>, \<open>$10\<close> if \<open>100 \<le> v < 500\<close>,
  \<open>$25\<close> if \<open>v \<ge> 500\<close>; for \<open>n < 10\<close>, to the nearest \<open>$1\<close> if \<open>v < 50\<close>,
  \<open>$5\<close> if \<open>50 \<le> v < 200\<close>, and \<open>$10\<close> (not \<open>$25\<close>) if \<open>v \<ge> 200\<close>. Each result is
  \<open>round(v / k) * k\<close>, a multiple of the increment \<open>k\<close> within \<open>k / 2\<close> of \<open>v\<close>;
  in particular 47 with 12 prices gives 45, and 620 with 40 prices gives 625.
\<close>

theorem tier_round_increments:
  "(10 \<le> n \<and> v < 100 \<longrightarrow>
      tier_round n v = py_round (v / 5) * 5 \<and> nearest_multiple 5 v (tier_round n v))
   \<and> (10 \<le> n \<and> 100 \<le> v \<and> v < 500 \<longrightarrow>
      tier_round n v = py_round (v / 10) * 10 \<and> nearest_multiple 10 v (tier_round n v))
   \<and> (10 \<le> n \<and> 500 \<le> v \<longrightarrow>
      tier_round n v = py_round (v / 25) * 25 \<and> nearest_multiple 25 v (tier_round n v))
   \<and> (n < 10 \<and> v < 50 \<longrightarrow>
      tier_round n v = py_round v \<and> nearest_multiple 1 v (tier_round n v))
   \<and> (n < 10 \<and> 50 \<le> v \<and> v < 200 \<longrightarrow>
      tier_round n v = py_round (v / 5) * 5 \<and> nearest_multiple 5 v (tier_round n v))
   \<and> (n < 10 \<and> 200 \<le> v \<longrightarrow>
      tier_round n v = py_round (v / 10) * 10 \<and> nearest_multiple 10 v (tier_round n v))
   \<and> tier_round 12 47 = 45 \<and> tier_round 40 620 = 625"
proof -
  have "tier_round 12 47 = 45" "tier_round 40 620 = 625"
    by (simp_all add: tier_round_def smart_round_def py_round_def)
  then show ?thesis
    using round_to_nearest [of 5 v] round_to_nearest [of 10 v] round_to_nearest [of 25 v]
      round_to_nearest [of 1 v]
    by (simp add: tier_round_def smart_round_def small_round_def)
qed

theorem tier_round_increments_witness:
  "tier_round 12 47 = 45 \<and> nearest_multiple 5 47 45
   \<and> tier_round 12 250 = 250 \<and> nearest_multiple 10 250 250
   \<and> tier_round 40 620 = 625 \<and> nearest_multiple 25 620 625
   \<and> tier_round 5 47 = 47 \<and> nearest_multiple 1 47 47
   \<and> tier_round 5 123 = 125 \<and> nearest_multiple 5 123 125
   \<and> tier_round 5 210 = 210 \<and> nearest_multiple 10 210 210"
  using tier_round_increments [of 12 47] tier_round_increments [of 12 250]
    tier_round_increments [of 40 620] tier_round_increments [of 5 47]
    tier_round_increments [of 5 123] tier_round_increments [of 5 210]
  by (auto simp add: py_round_def)

text \<open>
  Claim C10. Both rounding helpers are monotone: for all values \<open>x \<le> y\<close> (in
  particular for \<open>0 \<le> x \<le> y\<close>), \<open>smart_round x \<le> smart_round y\<close> and
  \<open>small_round x \<le> small_round y\<close>, so rounding never reverses the order of two raw
  percentiles.
\<close>

theorem rounding_monotone:
  "x \<le> y \<Longrightarrow> smart_round x \<le> smart_round y \<and> small_round x \<le> small_round y"
  by (simp add: smart_round_mono small_round_mono)

theorem rounding_monotone_witness:
  "(99::real) \<le> 104 \<and> smart_round 99 \<le> smart_round 104 \<and> small_round 99 \<le> small_round 104
   \<and> smart_round 99 = 100 \<and> smart_round 104 = 100"
  using rounding_monotone [of 99 104]
  by (simp add: smart_round_def py_round_def)

subsection \<open>Percentiles\<close>

text \<open>
  Claim C9. For every non-empty list and every \<open>p\<close> from 0 to 100, \<open>get_percentile\<close>
  returns the element of a single-element list, and otherwise the linear interpolation
  between the values at \<open>floor(idx)\<close> and \<open>ceil(idx)\<close> for \<open>idx = (p/100)*(n-1)\<close>; the
  50th percentile of \<open>[10, 20, 30, 40]\<close> is 25.
\<close>

theorem get_percentile_interpolates:
  assumes "sortedValues \<noteq> []" and "0 \<le> p" and "p \<le> 100"
  shows "(length sortedValues = 1 \<longrightarrow> get_percentile sortedValues p = Inr (sortedValues ! 0))
    \<and> (length sortedValues \<noteq> 1 \<longrightarrow>
         get_percentile sortedValues p
           = Inr (spec_interpolate sortedValues (spec_index sortedValues p)))
    \<and> get_percentile [10, 20, 30, 40] 50 = Inr 25"
proof -
  have "get_percentile [10, 20, 30, 40] 50 = Inr 25"
    by (simp add: get_percentile_def py_int_def py_index_def bind_err_def Let_def)
  moreover have "length sortedValues = 1 \<Longrightarrow> get_percentile sortedValues p = Inr (sortedValues ! 0)"
    by (simp add: get_percentile_def py_index_def)
  ultimately show ?thesis using get_percentile_value [OF assms] by simp
qed

theorem get_percentile_interpolates_witness:
  "get_percentile [7] 30 = Inr 7
   \<and> get_percentile [10, 20, 30, 40] 50 = Inr 25
   \<and> spec_interpolate [10, 20, 30, 40] (spec_index [10, 20, 30, 40] 50) = 25"
  using get_percentile_interpolates [of "[7]" 30]
    get_percentile_interpolates [of "[10, 20, 30, 40]" 50]
  by simp

subsection \<open>The IQR stage\<close>



subsection \<open>Small inputs\<close>

text \<open>
  Claim C2. On an empty list the analyzer returns the three tiers 0 with both counts 0; on
  a list of one or two prices the three tiers are the arithmetic mean of the prices; on a
  list of exactly three prices it runs the filter-and-percentile pipeline, whose result on
  \<open>[100, 105, 110]\<close> has the tiers 100, 100, 105 and not the mean 105.
\<close>

theorem analyze_small_inputs:
  "analyze_price_distribution [] part_name raw_titles m
      = Inr \<lparr>low = 0, average = 0, high = 0, items_removed = 0, cleaned_count = 0,
             details = None\<rparr>
   \<and> (length raw_prices = 1 \<or> length raw_prices = 2 \<longrightarrow>
        analyze_price_distribution raw_prices part_name raw_titles m
          = Inr \<lparr>low = spec_mean raw_prices, average = spec_mean raw_prices,
                 high = spec_mean raw_prices, items_removed = 0,
                 cleaned_count = int (length raw_prices), details = None\<rparr>)
   \<and> (length raw_prices = 3 \<longrightarrow>
        analyze_price_distribution raw_prices part_name raw_titles m
          = full_pipeline raw_prices part_name raw_titles m)
   \<and> (\<exists>r. analyze_price_distribution [100, 105, 110] ''engine''
              (Some [''Engine'', ''Engine'', ''Engine'']) 0 = Inr r
          \<and> low r = 100 \<and> average r = 100 \<and> high r = 105 \<and> cleaned_count r = 3
          \<and> spec_mean [100, 105, 110] = 105)"
proof -
  have a: "keyword_stage ''engine'' [100, 105, 110] (Some [''Engine'', ''Engine'', ''Engine''])
      = [100, 105, 110]"
    by (simp add: keyword_stage_def keywords_to_check_def suspicious_keywords_def py_lower_def
      py_lower_char_def title_at_def is_suspicious_def)
  have b: "price_tiers [100, 105, 110] = Inr ((100.5, 102.5, 105), (100, 100, 105))"
    by (simp add: price_tiers_def get_percentile_def py_int_def py_index_def bind_err_def
      smart_round_def small_round_def py_round_def Let_def)
  have c: "separate_tiers [100, 105, 110] (100, 100, 105) = Inr (100, 100, 105)"
    by (simp add: separate_tiers_def)
  have "full_pipeline [100, 105, 110] ''engine'' (Some [''Engine'', ''Engine'', ''Engine'']) 0
     = Inr \<lparr>low = 100, average = 100, high = 105, items_removed = 0, cleaned_count = 3,
            details = Some \<lparr>raw_p10 = 100.5, raw_p30 = 102.5, raw_p50 = 105,
                             final_range = 10, minimum_price = 0\<rparr>\<rparr>"
    by (simp add: full_pipeline_def clean_prices_def a minimum_stage_def iqr_stage_def b c
      bind_err_def py_max_def py_min_def)
  then have "\<exists>r. analyze_price_distribution [100, 105, 110] ''engine''
              (Some [''Engine'', ''Engine'', ''Engine'']) 0 = Inr r
          \<and> low r = 100 \<and> average r = 100 \<and> high r = 105 \<and> cleaned_count r = 3
          \<and> spec_mean [100, 105, 110] = 105"
    by (simp add: analyze_price_distribution_def spec_mean_def)
  then show ?thesis
    by (auto simp add: analyze_price_distribution_def spec_mean_def Let_def)
qed

theorem analyze_small_inputs_witness:
  "analyze_price_distribution [80] ''engine'' None 0
      = Inr \<lparr>low = 80, average = 80, high = 80, items_removed = 0, cleaned_count = 1,
             details = None\<rparr>
   \<and> analyze_price_distribution [100, 45] ''engine'' (Some [''Engine'', ''Engine Mount'']) 50
      = Inr \<lparr>low = 72.5, average = 72.5, high = 72.5, items_removed = 0, cleaned_count = 2,
             details = None\<rparr>
   \<and> analyze_price_distribution [100, 105, 110] ''engine'' None 0
      = full_pipeline [100, 105, 110] ''engine'' None 0"
  using analyze_small_inputs [of "''engine''" None 0 "[80]"]
    analyze_small_inputs [of "''engine''" "Some [''Engine'', ''Engine Mount'']" 50 "[100, 45]"]
    analyze_small_inputs [of "''engine''" None 0 "[100, 105, 110]"]
  by (simp add: spec_mean_def)

subsection \<open>The keyword stage\<close>



subsection \<open>Tier ordering\<close>




subsection \<open>The AI-assisted analyzer\<close>




end
